theory Spec2Isabelle
  imports Main
begin

section \<open>The Go runtime operations the handlers rely on\<close>

text \<open>
  Go strings are byte sequences; \<^typ>\<open>string\<close> (a list of 8-bit characters) models them
  byte for byte.  An index or slice expression that leaves the value's bounds raises a
  run-time panic; the panic is a value of the model.
\<close>

datatype panic =
    IndexOutOfRange nat nat
  | SliceBoundsOutOfRange nat nat

text \<open>\<^verbatim>\<open>xs[i]\<close>: the element, or the panic carrying the index and the length.\<close>

definition index :: "'a list \<Rightarrow> nat \<Rightarrow> panic + 'a" where
  "index xs i = (if i < length xs then Inr (xs ! i) else Inl (IndexOutOfRange i (length xs)))"

text \<open>\<^verbatim>\<open>s[0:n]\<close> on a string: the first \<open>n\<close> bytes, or the panic when the string is shorter.\<close>

definition slice_to :: "string \<Rightarrow> nat \<Rightarrow> panic + string" where
  "slice_to s n = (if n \<le> length s then Inr (take n s) else Inl (SliceBoundsOutOfRange n (length s)))"

text \<open>
  \<^verbatim>\<open>strings.Split(s, sep)\<close> for a one-byte separator: the pieces between the occurrences
  of \<open>sep\<close>; a string without the separator is the only piece (also the empty string).
\<close>

fun Split :: "string \<Rightarrow> char \<Rightarrow> string list" where
  "Split [] sep = [[]]"
| "Split (c # cs) sep =
     (if c = sep then [] # Split cs sep
      else (case Split cs sep of
              [] \<Rightarrow> [[c]]
            | piece # pieces \<Rightarrow> (c # piece) # pieces))"

text \<open>\<^verbatim>\<open>strings.Join(pieces, "/")\<close>, used to state what a re-joined branch name would be.\<close>

fun Join :: "string list \<Rightarrow> char \<Rightarrow> string" where
  "Join [] sep = []"
| "Join [p] sep = p"
| "Join (p # q # ps) sep = p @ sep # Join (q # ps) sep"

text \<open>Decimal printing of a Go \<^verbatim>\<open>int\<close> (\<^verbatim>\<open>%d\<close>, and the template engine's printing of integers).\<close>

definition digit :: "nat \<Rightarrow> char" where
  "digit d = ''0123456789'' ! d"

fun digits :: "nat \<Rightarrow> string" where
  "digits n = (if n < 10 then [digit n] else digits (n div 10) @ [digit (n mod 10)])"

declare digits.simps [simp del]

definition Itoa :: "int \<Rightarrow> string" where
  "Itoa i = (if i < 0 then CHR ''-'' # digits (nat (- i)) else digits (nat i))"

section \<open>The routing table and message delivery\<close>

record Mapping =
  DefaultChannel :: string
  GroupMappings :: "string \<rightharpoonup> string list"
  ExplicitMappings :: "string \<rightharpoonup> string list"

text \<open>
  Reading a Go map at a key it does not hold yields the zero value, here the nil slice.
\<close>

definition lookup :: "(string \<rightharpoonup> string list) \<Rightarrow> string \<Rightarrow> string list" where
  "lookup m k = (case m k of None \<Rightarrow> [] | Some v \<Rightarrow> v)"

text \<open>\<open>contains\<close> ranges over the keys of the map and compares each with the entry.\<close>

definition contains :: "(string \<rightharpoonup> string list) \<Rightarrow> string \<Rightarrow> bool" where
  "contains mapping entry = (entry \<in> dom mapping)"

text \<open>
  The loop \<^verbatim>\<open>for _, channelName := range list { channelNames = append(channelNames, channelName) }\<close>.
\<close>

definition appendAll :: "string list \<Rightarrow> string list \<Rightarrow> string list" where
  "appendAll channelNames list = foldl (\<lambda>acc channelName. acc @ [channelName]) channelNames list"

text \<open>The value of \<open>channelNames\<close> in \<open>sendMessage\<close> when its delivery loop starts.\<close>

definition channelNames :: "string \<Rightarrow> string \<Rightarrow> Mapping \<Rightarrow> string list" where
  "channelNames projectName namespace channelMapping =
     (let full_projectName = namespace @ ''/'' @ projectName in
      if contains (ExplicitMappings channelMapping) full_projectName
      then appendAll [] (lookup (ExplicitMappings channelMapping) full_projectName)
      else if contains (GroupMappings channelMapping) namespace
      then appendAll [] (lookup (GroupMappings channelMapping) namespace)
      else [] @ [DefaultChannel channelMapping])"

text \<open>
  The chat connection is the list of \<^verbatim>\<open>Privmsg(channel, message)\<close> calls made on it so far,
  oldest first.
\<close>

type_synonym Connection = "(string \<times> string) list"

definition sendMessage :: "string \<Rightarrow> string \<Rightarrow> string \<Rightarrow> Mapping \<Rightarrow> Connection \<Rightarrow> Connection" where
  "sendMessage message projectName namespace channelMapping conn =
     foldl (\<lambda>c channelName. c @ [(channelName, message)]) conn
       (channelNames projectName namespace channelMapping)"

section \<open>Library functions the templates go through\<close>

text \<open>
  The templates are \<^verbatim>\<open>html/template\<close> templates whose actions all stand in HTML text, so
  every inserted value passes the engine's text escaper: seven characters are replaced
  and every other byte is kept.
\<close>

fun htmlReplacement :: "char \<Rightarrow> string" where
  "htmlReplacement c =
     (if c = CHR 0x00 then [CHR 0xEF, CHR 0xBF, CHR 0xBD]
      else if c = CHR 0x22 then ''&#34;''
      else if c = CHR 0x26 then ''&amp;''
      else if c = CHR 0x27 then ''&#39;''
      else if c = CHR 0x2B then ''&#43;''
      else if c = CHR 0x3C then ''&lt;''
      else if c = CHR 0x3E then ''&gt;''
      else [c])"

definition htmlEscaper :: "string \<Rightarrow> string" where
  "htmlEscaper s = concat (map htmlReplacement s)"

text \<open>
  \<^verbatim>\<open>html.UnescapeString\<close> returns a string without an ampersand as it is.  What it does to
  the entities of a string with an ampersand is decided by the entity table of Go's
  \<^verbatim>\<open>html\<close> package, which is no part of this program: the model leaves that result open.
\<close>

definition unescapeEntities :: "string \<Rightarrow> string" where
  "unescapeEntities = undefined"

definition UnescapeString :: "string \<Rightarrow> string" where
  "UnescapeString s = (if CHR 0x26 \<in> set s then unescapeEntities s else s)"

section \<open>The event records\<close>

text \<open>
  The structs the handler decodes into.  A Go \<^verbatim>\<open>int\<close> field is an \<^typ>\<open>int\<close>: the only
  arithmetic on one is \<^verbatim>\<open>TotalCommits-3\<close> under the guard \<^verbatim>\<open>TotalCommits > 3\<close>, which
  cannot wrap.  A \<^verbatim>\<open>float64\<close> duration is only ever printed, and is kept as the text
  \<^verbatim>\<open>fmt\<close> prints for it.
\<close>

type_synonym float64 = string

record Project =
  Project_Name :: string
  Project_Namespace :: string
  Project_WebURL :: string

record User =
  User_Name :: string

record Issue =
  Issue_Iid :: int
  Issue_Action :: string
  Issue_Title :: string
  Issue_Description :: string
  Issue_URL :: string

record Author =
  Author_Name :: string

record Commit =
  Commit_Id :: string
  Commit_Message :: string
  Commit_Added :: "string list"
  Commit_Modified :: "string list"
  Commit_Removed :: "string list"
  Commit_Author :: Author

record PushEvent =
  PushEvent_UserName :: string
  PushEvent_BeforeCommit :: string
  PushEvent_AfterCommit :: string
  PushEvent_Project :: Project
  PushEvent_Commits :: "Commit list"
  PushEvent_TotalCommits :: int
  PushEvent_Branch :: string

record IssueEvent =
  IssueEvent_User :: User
  IssueEvent_Project :: Project
  IssueEvent_Issue :: Issue

record Merge =
  Merge_Iid :: int
  Merge_Action :: string
  Merge_Title :: string
  Merge_URL :: string

record MergeEvent =
  MergeEvent_User :: User
  MergeEvent_Project :: Project
  MergeEvent_Merge :: Merge

record Pipeline =
  Pipeline_Id :: int
  Pipeline_Commit :: string
  Pipeline_Status :: string
  Pipeline_Duration :: float64

record PipelineEvent =
  PipelineEvent_Pipeline :: Pipeline
  PipelineEvent_Project :: Project

record Repository =
  Repository_Name :: string
  Repository_Homepage :: string
  Repository_URL :: string

record JobEvent =
  JobEvent_Id :: int
  JobEvent_Name :: string
  JobEvent_Status :: string
  JobEvent_Duration :: float64
  JobEvent_Commit :: string
  JobEvent_Repository :: Repository

record CommitContext =
  CommitContext_ShortID :: string
  CommitContext_Message :: string
  CommitContext_Author :: Author
  CommitContext_AddedFiles :: int
  CommitContext_ModifiedFiles :: int
  CommitContext_RemovedFiles :: int

text \<open>The zero value of \<open>Commit\<close>, which fills a slice between its length and its capacity.\<close>

definition zeroCommit :: Commit where
  "zeroCommit = \<lparr>Commit_Id = [], Commit_Message = [], Commit_Added = [],
     Commit_Modified = [], Commit_Removed = [], Commit_Author = \<lparr>Author_Name = []\<rparr>\<rparr>"

text \<open>
  \<^verbatim>\<open>commits[0:n]\<close> on a slice whose capacity exceeds its length by \<open>spare\<close>: the slice
  expression may reach past the length, up to the capacity.
\<close>

definition slice_commits :: "Commit list \<Rightarrow> nat \<Rightarrow> nat \<Rightarrow> panic + Commit list" where
  "slice_commits commits spare n =
     (if n \<le> length commits + spare
      then Inr (take n (commits @ replicate spare zeroCommit))
      else Inl (SliceBoundsOutOfRange n (length commits + spare)))"

section \<open>The message templates\<close>

abbreviation ETX :: char where
  "ETX \<equiv> CHR 0x03"

text \<open>The constant tables \<open>JobStatus\<close> and \<open>HookActions\<close>; a missing key reads as the empty string.\<close>

definition JobStatus :: "string \<Rightarrow> string" where
  "JobStatus k =
     (if k = ''pending'' then ''is '' @ [ETX] @ ''15pending'' @ [ETX]
      else if k = ''created'' then ''was '' @ [ETX] @ ''15created'' @ [ETX]
      else if k = ''running'' then ''is '' @ [ETX] @ ''07running'' @ [ETX]
      else if k = ''failed'' then ''has '' @ [ETX] @ ''04failed'' @ [ETX]
      else if k = ''success'' then ''has '' @ [ETX] @ ''03succeded'' @ [ETX]
      else [])"

definition HookActions :: "string \<Rightarrow> string" where
  "HookActions k =
     (if k = ''open'' then ''opened''
      else if k = ''update'' then ''updated''
      else if k = ''close'' then ''closed''
      else if k = ''reopen'' then ''reopened''
      else if k = ''merge'' then ''merged''
      else [])"

definition NullCommit :: string where
  "NullCommit = ''0000000000000000000000000000000000000000''"

text \<open>\<open>[\x0312{{ .Project.Name }}\x03] \<close>, the opening of every project line.\<close>

definition projectTag :: "string \<Rightarrow> string" where
  "projectTag name = ''['' @ [ETX] @ ''12'' @ htmlEscaper name @ [ETX] @ ''] ''"

definition pushCompareTemplate :: "PushEvent \<Rightarrow> string" where
  "pushCompareTemplate e =
     projectTag (Project_Name (PushEvent_Project e)) @ htmlEscaper (PushEvent_UserName e)
     @ '' pushed '' @ htmlEscaper (Itoa (PushEvent_TotalCommits e)) @ '' commits to ''
     @ [ETX] @ ''05'' @ htmlEscaper (PushEvent_Branch e) @ [ETX] @ '' ''
     @ htmlEscaper (Project_WebURL (PushEvent_Project e)) @ ''/compare/''
     @ htmlEscaper (PushEvent_BeforeCommit e) @ ''...'' @ htmlEscaper (PushEvent_AfterCommit e)"

definition pushCommitLogTemplate :: "PushEvent \<Rightarrow> string" where
  "pushCommitLogTemplate e =
     projectTag (Project_Name (PushEvent_Project e)) @ htmlEscaper (PushEvent_UserName e)
     @ '' pushed '' @ htmlEscaper (Itoa (PushEvent_TotalCommits e)) @ '' commits to ''
     @ [ETX] @ ''05'' @ htmlEscaper (PushEvent_Branch e) @ [ETX] @ '' ''
     @ htmlEscaper (Project_WebURL (PushEvent_Project e)) @ ''/commits/''
     @ htmlEscaper (PushEvent_Branch e)"

definition branchCreateTemplate :: "PushEvent \<Rightarrow> string" where
  "branchCreateTemplate e =
     projectTag (Project_Name (PushEvent_Project e)) @ htmlEscaper (PushEvent_UserName e)
     @ '' created the branch '' @ [ETX] @ ''05'' @ htmlEscaper (PushEvent_Branch e) @ [ETX]"

definition branchDeleteTemplate :: "PushEvent \<Rightarrow> string" where
  "branchDeleteTemplate e =
     projectTag (Project_Name (PushEvent_Project e)) @ htmlEscaper (PushEvent_UserName e)
     @ '' deleted the branch '' @ [ETX] @ ''05'' @ htmlEscaper (PushEvent_Branch e) @ [ETX]"

text \<open>The part of the commit line both variants of the program share: hash and file counts.\<close>

definition commitStats :: "CommitContext \<Rightarrow> string" where
  "commitStats c =
     [ETX] @ ''15'' @ htmlEscaper (CommitContext_ShortID c) @ [ETX] @ '' (''
     @ [ETX] @ ''03+'' @ htmlEscaper (Itoa (CommitContext_AddedFiles c)) @ [ETX] @ ''|''
     @ [ETX] @ ''08'' @ [CHR 0xC2, CHR 0xB1] @ htmlEscaper (Itoa (CommitContext_ModifiedFiles c))
     @ [ETX] @ ''|''
     @ [ETX] @ ''04-'' @ htmlEscaper (Itoa (CommitContext_RemovedFiles c)) @ [ETX] @ '') ''"

definition commitTemplate :: "CommitContext \<Rightarrow> string" where
  "commitTemplate c =
     commitStats c @ [ETX] @ ''06'' @ htmlEscaper (Author_Name (CommitContext_Author c)) @ [ETX]
     @ '': '' @ htmlEscaper (CommitContext_Message c)"

definition issueTemplate :: "IssueEvent \<Rightarrow> string" where
  "issueTemplate e =
     projectTag (Project_Name (IssueEvent_Project e)) @ htmlEscaper (User_Name (IssueEvent_User e))
     @ '' '' @ htmlEscaper (Issue_Action (IssueEvent_Issue e)) @ '' issue '' @ [ETX] @ ''08#''
     @ htmlEscaper (Itoa (Issue_Iid (IssueEvent_Issue e))) @ [ETX] @ '': ''
     @ htmlEscaper (Issue_Title (IssueEvent_Issue e)) @ '' ''
     @ htmlEscaper (Issue_URL (IssueEvent_Issue e))"

definition mergeTemplate :: "MergeEvent \<Rightarrow> string" where
  "mergeTemplate e =
     projectTag (Project_Name (MergeEvent_Project e)) @ htmlEscaper (User_Name (MergeEvent_User e))
     @ '' '' @ htmlEscaper (Merge_Action (MergeEvent_Merge e)) @ '' merge request '' @ [ETX]
     @ ''08#'' @ htmlEscaper (Itoa (Merge_Iid (MergeEvent_Merge e))) @ [ETX] @ '': ''
     @ htmlEscaper (Merge_Title (MergeEvent_Merge e)) @ '' ''
     @ htmlEscaper (Merge_URL (MergeEvent_Merge e))"

definition pipelineCreateTemplate :: "PipelineEvent \<Rightarrow> string" where
  "pipelineCreateTemplate e =
     projectTag (Project_Name (PipelineEvent_Project e)) @ ''Pipeline for commit ''
     @ htmlEscaper (Pipeline_Commit (PipelineEvent_Pipeline e)) @ '' ''
     @ htmlEscaper (Pipeline_Status (PipelineEvent_Pipeline e)) @ '' ''
     @ htmlEscaper (Project_WebURL (PipelineEvent_Project e)) @ ''/pipelines/''
     @ htmlEscaper (Itoa (Pipeline_Id (PipelineEvent_Pipeline e)))"

definition pipelineCompleteTemplate :: "PipelineEvent \<Rightarrow> string" where
  "pipelineCompleteTemplate e =
     projectTag (Project_Name (PipelineEvent_Project e)) @ ''Pipeline for commit ''
     @ htmlEscaper (Pipeline_Commit (PipelineEvent_Pipeline e)) @ '' ''
     @ htmlEscaper (Pipeline_Status (PipelineEvent_Pipeline e)) @ '' in ''
     @ htmlEscaper (Pipeline_Duration (PipelineEvent_Pipeline e)) @ '' seconds ''
     @ htmlEscaper (Project_WebURL (PipelineEvent_Project e)) @ ''/pipelines/''
     @ htmlEscaper (Itoa (Pipeline_Id (PipelineEvent_Pipeline e)))"

definition jobCompleteTemplate :: "JobEvent \<Rightarrow> string" where
  "jobCompleteTemplate e =
     projectTag (Repository_Name (JobEvent_Repository e)) @ ''Job '' @ [ETX] @ ''08''
     @ htmlEscaper (JobEvent_Name e) @ [ETX] @ '' for commit '' @ htmlEscaper (JobEvent_Commit e)
     @ '' '' @ htmlEscaper (JobEvent_Status e) @ '' in '' @ htmlEscaper (JobEvent_Duration e)
     @ '' seconds '' @ htmlEscaper (Repository_Homepage (JobEvent_Repository e)) @ ''/-/jobs/''
     @ htmlEscaper (Itoa (JobEvent_Id e))"

text \<open>\<^verbatim>\<open>fmt.Sprintf("and %d more commits.", n)\<close>.\<close>

definition moreCommits :: "int \<Rightarrow> string" where
  "moreCommits n = ''and '' @ Itoa n @ '' more commits.''"

section \<open>The request handler\<close>

text \<open>
  How a call of the handler ends: it returns, it panics (the HTTP server recovers the
  panic of a handler and keeps serving), or \<^verbatim>\<open>log.Fatal\<close> ends the whole process.
\<close>

datatype outcome = Returned | Panicked panic | Exited

text \<open>
  What the handler reads of a request: the values of the \<^verbatim>\<open>X-Gitlab-Event\<close> header, and,
  for each struct, what \<^verbatim>\<open>decoder.Decode\<close> makes of the body (\<open>Inl\<close> the decoder's error).
  The JSON decoder is a library; its result is taken as given.  \<open>Commits_spare\<close> is the
  capacity the decoder left in the commit slice beyond its length.
\<close>

record Request =
  X_Gitlab_Event :: "string list"
  Decode_PipelineEvent :: "string + PipelineEvent"
  Decode_JobEvent :: "string + JobEvent"
  Decode_MergeEvent :: "string + MergeEvent"
  Decode_IssueEvent :: "string + IssueEvent"
  Decode_PushEvent :: "string + PushEvent"
  Commits_spare :: nat

definition PipelineHook :: "Mapping \<Rightarrow> string + PipelineEvent \<Rightarrow> Connection \<Rightarrow> outcome \<times> Connection" where
  "PipelineHook channelMapping decoded conn =
     (case decoded of
        Inl err \<Rightarrow> (Exited, conn)
      | Inr pipelineEvent \<Rightarrow>
          if Pipeline_Status (PipelineEvent_Pipeline pipelineEvent) = ''pending''
          then (Returned, conn)
          else (case slice_to (Pipeline_Commit (PipelineEvent_Pipeline pipelineEvent)) 7 of
             Inl p \<Rightarrow> (Panicked p, conn)
           | Inr short \<Rightarrow>
               let pipelineEvent = pipelineEvent\<lparr>PipelineEvent_Pipeline :=
                     (PipelineEvent_Pipeline pipelineEvent)\<lparr>Pipeline_Commit := short\<rparr>\<rparr>;
                   status = Pipeline_Status (PipelineEvent_Pipeline pipelineEvent);
                   colorized = pipelineEvent\<lparr>PipelineEvent_Pipeline :=
                     (PipelineEvent_Pipeline pipelineEvent)\<lparr>Pipeline_Status := JobStatus status\<rparr>\<rparr>
               in if status = ''running''
                  then (Returned, sendMessage (pipelineCreateTemplate colorized)
                          (Project_Name (PipelineEvent_Project pipelineEvent))
                          (Project_Namespace (PipelineEvent_Project pipelineEvent))
                          channelMapping conn)
                  else if status = ''success'' \<or> status = ''failed''
                  then (Returned, sendMessage (pipelineCompleteTemplate colorized)
                          (Project_Name (PipelineEvent_Project pipelineEvent))
                          (Project_Namespace (PipelineEvent_Project pipelineEvent))
                          channelMapping conn)
                  else (Returned, conn)))"

definition JobHook :: "Mapping \<Rightarrow> string + JobEvent \<Rightarrow> Connection \<Rightarrow> outcome \<times> Connection" where
  "JobHook channelMapping decoded conn =
     (case decoded of
        Inl err \<Rightarrow> (Exited, conn)
      | Inr jobEvent \<Rightarrow>
          if JobEvent_Status jobEvent \<noteq> ''success'' \<and> JobEvent_Status jobEvent \<noteq> ''failed''
          then (Returned, conn)
          else (case slice_to (JobEvent_Commit jobEvent) 7 of
             Inl p \<Rightarrow> (Panicked p, conn)
           | Inr short \<Rightarrow>
              (case index (Split (Repository_URL (JobEvent_Repository jobEvent)) CHR '':'') 1 of
                 Inl p \<Rightarrow> (Panicked p, conn)
               | Inr path \<Rightarrow>
                  (case index (Split path CHR ''/'') 0 of
                     Inl p \<Rightarrow> (Panicked p, conn)
                   | Inr namespace \<Rightarrow>
                       let jobEvent = jobEvent\<lparr>JobEvent_Commit := short\<rparr>;
                           jobEvent = jobEvent\<lparr>JobEvent_Status := JobStatus (JobEvent_Status jobEvent)\<rparr>
                       in (Returned, sendMessage (jobCompleteTemplate jobEvent)
                             (Repository_Name (JobEvent_Repository jobEvent)) namespace
                             channelMapping conn)))))"

definition MergeRequestHook :: "Mapping \<Rightarrow> string + MergeEvent \<Rightarrow> Connection \<Rightarrow> outcome \<times> Connection" where
  "MergeRequestHook channelMapping decoded conn =
     (case decoded of
        Inl err \<Rightarrow> (Exited, conn)
      | Inr mergeEvent \<Rightarrow>
          let mergeEvent = mergeEvent\<lparr>MergeEvent_Merge :=
                (MergeEvent_Merge mergeEvent)\<lparr>Merge_Action :=
                   HookActions (Merge_Action (MergeEvent_Merge mergeEvent))\<rparr>\<rparr>
          in (Returned, sendMessage (mergeTemplate mergeEvent)
                (Project_Name (MergeEvent_Project mergeEvent))
                (Project_Namespace (MergeEvent_Project mergeEvent)) channelMapping conn))"

definition IssueHook :: "Mapping \<Rightarrow> string + IssueEvent \<Rightarrow> Connection \<Rightarrow> outcome \<times> Connection" where
  "IssueHook channelMapping decoded conn =
     (case decoded of
        Inl err \<Rightarrow> (Exited, conn)
      | Inr issueEvent \<Rightarrow>
          let issueEvent = issueEvent\<lparr>IssueEvent_Issue :=
                (IssueEvent_Issue issueEvent)\<lparr>Issue_Action :=
                   HookActions (Issue_Action (IssueEvent_Issue issueEvent))\<rparr>\<rparr>
          in (Returned, sendMessage (issueTemplate issueEvent)
                (Project_Name (IssueEvent_Project issueEvent))
                (Project_Namespace (IssueEvent_Project issueEvent)) channelMapping conn))"

text \<open>
  The \<open>CommitContext\<close> literal of the commit loop.  The two variants of the program differ
  in the bound of the slice expression on the commit id (\<open>width\<close>: 7 here, 8 in
  \<^verbatim>\<open>main.go\<close>) and in what they do to the message (\<open>unescape\<close>: \<^verbatim>\<open>html.UnescapeString\<close> here,
  nothing in \<^verbatim>\<open>main.go\<close>).
\<close>

definition CommitContext :: "nat \<Rightarrow> (string \<Rightarrow> string) \<Rightarrow> Commit \<Rightarrow> panic + CommitContext" where
  "CommitContext width unescape commit =
     (case slice_to (Commit_Id commit) width of
        Inl p \<Rightarrow> Inl p
      | Inr short \<Rightarrow> Inr \<lparr>CommitContext_ShortID = short,
          CommitContext_Message = unescape (Commit_Message commit),
          CommitContext_Author = Commit_Author commit,
          CommitContext_AddedFiles = int (length (Commit_Added commit)),
          CommitContext_ModifiedFiles = int (length (Commit_Modified commit)),
          CommitContext_RemovedFiles = int (length (Commit_Removed commit))\<rparr>)"

text \<open>
  The loop over \<open>pushEvent.Commits\<close>: one message per commit.  Executing the template
  writes into a memory buffer and does not fail, so the loop ends early only by the panic
  of the slice expression; the messages of the commits before it are already sent.
\<close>

fun commitLoop :: "Mapping \<Rightarrow> PushEvent \<Rightarrow> Commit list \<Rightarrow> Connection \<Rightarrow> panic option \<times> Connection" where
  "commitLoop channelMapping pushEvent [] conn = (None, conn)"
| "commitLoop channelMapping pushEvent (commit # commits) conn =
     (case CommitContext 7 UnescapeString commit of
        Inl p \<Rightarrow> (Some p, conn)
      | Inr context \<Rightarrow>
          commitLoop channelMapping pushEvent commits
            (sendMessage (commitTemplate context)
               (Project_Name (PushEvent_Project pushEvent))
               (Project_Namespace (PushEvent_Project pushEvent)) channelMapping conn))"

text \<open>The summary line of a push with commits, and the event as the shortening leaves it.\<close>

definition pushSummary :: "PushEvent \<Rightarrow> panic + string \<times> PushEvent" where
  "pushSummary pushEvent =
     (if PushEvent_BeforeCommit pushEvent = NullCommit
      then Inr (pushCommitLogTemplate pushEvent, pushEvent)
      else (case slice_to (PushEvent_BeforeCommit pushEvent) 7 of
              Inl p \<Rightarrow> Inl p
            | Inr before \<Rightarrow>
               (case slice_to (PushEvent_AfterCommit pushEvent) 7 of
                  Inl p \<Rightarrow> Inl p
                | Inr after \<Rightarrow>
                    let pushEvent = pushEvent\<lparr>PushEvent_BeforeCommit := before,
                                              PushEvent_AfterCommit := after\<rparr>
                    in Inr (pushCompareTemplate pushEvent, pushEvent))))"

definition PushHook :: "Mapping \<Rightarrow> string + PushEvent \<Rightarrow> nat \<Rightarrow> Connection \<Rightarrow> outcome \<times> Connection" where
  "PushHook channelMapping decoded spare conn =
     (case decoded of
        Inl err \<Rightarrow> (Returned, conn)
      | Inr pushEvent \<Rightarrow>
         (case index (Split (PushEvent_Branch pushEvent) CHR ''/'') 2 of
            Inl p \<Rightarrow> (Panicked p, conn)
          | Inr branch \<Rightarrow>
              let pushEvent = pushEvent\<lparr>PushEvent_Branch := branch\<rparr>;
                  name = Project_Name (PushEvent_Project pushEvent);
                  namespace = Project_Namespace (PushEvent_Project pushEvent)
              in if PushEvent_AfterCommit pushEvent = NullCommit
                 then (Returned, sendMessage (branchDeleteTemplate pushEvent) name namespace
                         channelMapping conn)
                 else
                   let conn = (if PushEvent_BeforeCommit pushEvent = NullCommit
                               then sendMessage (branchCreateTemplate pushEvent) name namespace
                                      channelMapping conn
                               else conn)
                   in if PushEvent_TotalCommits pushEvent > 0
                      then (case pushSummary pushEvent of
                         Inl p \<Rightarrow> (Panicked p, conn)
                       | Inr (summary, pushEvent) \<Rightarrow>
                           let conn = sendMessage summary name namespace channelMapping conn
                           in (case (if PushEvent_TotalCommits pushEvent > 3
                                     then slice_commits (PushEvent_Commits pushEvent) spare 3
                                     else Inr (PushEvent_Commits pushEvent)) of
                                 Inl p \<Rightarrow> (Panicked p, conn)
                               | Inr commits \<Rightarrow>
                                  (case commitLoop channelMapping pushEvent commits conn of
                                     (Some p, conn) \<Rightarrow> (Panicked p, conn)
                                   | (None, conn) \<Rightarrow>
                                       if PushEvent_TotalCommits pushEvent > 3
                                       then (Returned, sendMessage
                                               (moreCommits (PushEvent_TotalCommits pushEvent - 3))
                                               name namespace channelMapping conn)
                                       else (Returned, conn))))
                      else (Returned, conn)))"

text \<open>The handler that \<open>CreateFunctionNotifyFunction\<close> returns, applied to a request.\<close>

definition CreateFunctionNotifyFunction :: "Mapping \<Rightarrow> Request \<Rightarrow> Connection \<Rightarrow> outcome \<times> Connection" where
  "CreateFunctionNotifyFunction channelMapping req conn =
     (case index (X_Gitlab_Event req) 0 of
        Inl p \<Rightarrow> (Panicked p, conn)
      | Inr eventType \<Rightarrow>
          if eventType = ''Pipeline Hook''
          then PipelineHook channelMapping (Decode_PipelineEvent req) conn
          else if eventType = ''Job Hook''
          then JobHook channelMapping (Decode_JobEvent req) conn
          else if eventType = ''Merge Request Hook'' \<or> eventType = ''Merge Request Event''
          then MergeRequestHook channelMapping (Decode_MergeEvent req) conn
          else if eventType = ''Issue Hook'' \<or> eventType = ''Issue Event''
          then IssueHook channelMapping (Decode_IssueEvent req) conn
          else if eventType = ''Push Hook'' \<or> eventType = ''Push Event''
          then PushHook channelMapping (Decode_PushEvent req) (Commits_spare req) conn
          else (Returned, conn))"

section \<open>The handler of \<^verbatim>\<open>main.go\<close>\<close>

text \<open>
  The other variant of the program knows two event types and has three templates.  Its
  structs are the ones above without the fields it does not read.
\<close>

definition pushTemplate_main :: "PushEvent \<Rightarrow> string" where
  "pushTemplate_main e =
     projectTag (Project_Name (PushEvent_Project e)) @ htmlEscaper (PushEvent_UserName e)
     @ '' pushed '' @ htmlEscaper (Itoa (PushEvent_TotalCommits e)) @ '' new commits to ''
     @ [ETX] @ ''05'' @ htmlEscaper (PushEvent_Branch e) @ [ETX]"

definition commitTemplate_main :: "CommitContext \<Rightarrow> string" where
  "commitTemplate_main c = commitStats c @ ''- '' @ htmlEscaper (CommitContext_Message c)"

definition issueTemplate_main :: "IssueEvent \<Rightarrow> string" where
  "issueTemplate_main e =
     projectTag (Project_Name (IssueEvent_Project e)) @ htmlEscaper (User_Name (IssueEvent_User e))
     @ '' created issue '' @ [ETX] @ ''08#''
     @ htmlEscaper (Itoa (Issue_Iid (IssueEvent_Issue e))) @ [ETX] @ '': '' @ [CHR 0x27]
     @ htmlEscaper (Issue_Title (IssueEvent_Issue e)) @ [CHR 0x27]"

fun commitLoop_main :: "Mapping \<Rightarrow> PushEvent \<Rightarrow> Commit list \<Rightarrow> Connection \<Rightarrow> panic option \<times> Connection" where
  "commitLoop_main channelMapping pushEvent [] conn = (None, conn)"
| "commitLoop_main channelMapping pushEvent (commit # commits) conn =
     (case CommitContext 8 (\<lambda>message. message) commit of
        Inl p \<Rightarrow> (Some p, conn)
      | Inr context \<Rightarrow>
          commitLoop_main channelMapping pushEvent commits
            (sendMessage (commitTemplate_main context)
               (Project_Name (PushEvent_Project pushEvent))
               (Project_Namespace (PushEvent_Project pushEvent)) channelMapping conn))"

definition IssueHook_main :: "Mapping \<Rightarrow> string + IssueEvent \<Rightarrow> Connection \<Rightarrow> outcome \<times> Connection" where
  "IssueHook_main channelMapping decoded conn =
     (case decoded of
        Inl err \<Rightarrow> (Exited, conn)
      | Inr issueEvent \<Rightarrow>
          (Returned, sendMessage (issueTemplate_main issueEvent)
             (Project_Name (IssueEvent_Project issueEvent))
             (Project_Namespace (IssueEvent_Project issueEvent)) channelMapping conn))"

definition PushHook_main :: "Mapping \<Rightarrow> string + PushEvent \<Rightarrow> Connection \<Rightarrow> outcome \<times> Connection" where
  "PushHook_main channelMapping decoded conn =
     (case decoded of
        Inl err \<Rightarrow> (Returned, conn)
      | Inr pushEvent \<Rightarrow>
         (case index (Split (PushEvent_Branch pushEvent) CHR ''/'') 2 of
            Inl p \<Rightarrow> (Panicked p, conn)
          | Inr branch \<Rightarrow>
              let pushEvent = pushEvent\<lparr>PushEvent_Branch := branch\<rparr>;
                  conn = sendMessage (pushTemplate_main pushEvent)
                           (Project_Name (PushEvent_Project pushEvent))
                           (Project_Namespace (PushEvent_Project pushEvent)) channelMapping conn
              in (case commitLoop_main channelMapping pushEvent (PushEvent_Commits pushEvent) conn of
                    (Some p, conn) \<Rightarrow> (Panicked p, conn)
                  | (None, conn) \<Rightarrow> (Returned, conn))))"

definition CreateFunctionNotifyFunction_main :: "Mapping \<Rightarrow> Request \<Rightarrow> Connection \<Rightarrow> outcome \<times> Connection" where
  "CreateFunctionNotifyFunction_main channelMapping req conn =
     (case index (X_Gitlab_Event req) 0 of
        Inl p \<Rightarrow> (Panicked p, conn)
      | Inr eventType \<Rightarrow>
          if eventType = ''Issue Hook''
          then IssueHook_main channelMapping (Decode_IssueEvent req) conn
          else if eventType = ''Push Hook''
          then PushHook_main channelMapping (Decode_PushEvent req) conn
          else (Returned, conn))"

section \<open>Notions the properties are stated with\<close>

text \<open>
  The connection after the given lines were sent, one after the other, for one project:
  each line goes to every channel the routing table resolves the project to.
\<close>

definition deliver :: "Mapping \<Rightarrow> Project \<Rightarrow> string list \<Rightarrow> Connection \<Rightarrow> Connection" where
  "deliver channelMapping project lines conn =
     foldl (\<lambda>c line. sendMessage line (Project_Name project) (Project_Namespace project)
                       channelMapping c) conn lines"

text \<open>The commit line of the handler for a commit whose id has at least seven bytes.\<close>

definition commitLine :: "Commit \<Rightarrow> string" where
  "commitLine commit =
     commitTemplate \<lparr>CommitContext_ShortID = take 7 (Commit_Id commit),
       CommitContext_Message = UnescapeString (Commit_Message commit),
       CommitContext_Author = Commit_Author commit,
       CommitContext_AddedFiles = int (length (Commit_Added commit)),
       CommitContext_ModifiedFiles = int (length (Commit_Modified commit)),
       CommitContext_RemovedFiles = int (length (Commit_Removed commit))\<rparr>"

text \<open>A request of the given event type that carries the given push event.\<close>

definition pushRequest :: "string \<Rightarrow> PushEvent \<Rightarrow> nat \<Rightarrow> Request" where
  "pushRequest eventType pushEvent spare =
     \<lparr>X_Gitlab_Event = [eventType], Decode_PipelineEvent = Inl ''not decoded'',
      Decode_JobEvent = Inl ''not decoded'', Decode_MergeEvent = Inl ''not decoded'',
      Decode_IssueEvent = Inl ''not decoded'', Decode_PushEvent = Inr pushEvent,
      Commits_spare = spare\<rparr>"

text \<open>
  The invariant the routing table is specified with: a destination list that is present
  as a map value is not empty.
\<close>

definition nonempty_destinations :: "Mapping \<Rightarrow> bool" where
  "nonempty_destinations channelMapping =
     (\<forall>key destinations.
        ExplicitMappings channelMapping key = Some destinations
        \<or> GroupMappings channelMapping key = Some destinations \<longrightarrow> destinations \<noteq> [])"

text \<open>The keys of the table \<open>HookActions\<close>.\<close>

definition knownAction :: "string \<Rightarrow> bool" where
  "knownAction action = (action \<in> {''open'', ''update'', ''close'', ''reopen'', ''merge''})"

section \<open>Sample inputs\<close>

text \<open>
  A routing table with one explicit and one group entry, a project that only the default
  channel matches, and push events over it.
\<close>

definition sampleMapping :: Mapping where
  "sampleMapping = \<lparr>DefaultChannel = ''#default'',
     GroupMappings = [''infra'' \<mapsto> [''#infra'']],
     ExplicitMappings = [''infra/bridge'' \<mapsto> [''#bridge'', ''#ops'']]\<rparr>"

definition sampleProject :: Project where
  "sampleProject = \<lparr>Project_Name = ''tools'', Project_Namespace = ''misc'',
     Project_WebURL = ''https://git.example/misc/tools''\<rparr>"

definition sampleCommit :: "string \<Rightarrow> Commit" where
  "sampleCommit commitId = \<lparr>Commit_Id = commitId, Commit_Message = ''fix typo'',
     Commit_Added = [], Commit_Modified = [''README''], Commit_Removed = [],
     Commit_Author = \<lparr>Author_Name = ''alice''\<rparr>\<rparr>"

definition hashA :: string where
  "hashA = ''a3f5c2d9e1b7a3f5c2d9e1b7a3f5c2d9e1b7a3f5''"

definition hashB :: string where
  "hashB = ''b81e04c67d2fb81e04c67d2fb81e04c67d2fb81e''"

definition fiveCommits :: "Commit list" where
  "fiveCommits = [sampleCommit ''1111111aaaaaaaaaaaaaaaaaaaaaaaaaaaaaaaaa'',
                  sampleCommit ''2222222aaaaaaaaaaaaaaaaaaaaaaaaaaaaaaaaa'',
                  sampleCommit ''3333333aaaaaaaaaaaaaaaaaaaaaaaaaaaaaaaaa'',
                  sampleCommit ''4444444aaaaaaaaaaaaaaaaaaaaaaaaaaaaaaaaa'',
                  sampleCommit ''5555555aaaaaaaaaaaaaaaaaaaaaaaaaaaaaaaaa'']"

definition samplePush :: "string \<Rightarrow> string \<Rightarrow> int \<Rightarrow> Commit list \<Rightarrow> PushEvent" where
  "samplePush before after count commits =
     \<lparr>PushEvent_UserName = ''alice'', PushEvent_BeforeCommit = before,
      PushEvent_AfterCommit = after, PushEvent_Project = sampleProject,
      PushEvent_Commits = commits, PushEvent_TotalCommits = count,
      PushEvent_Branch = ''refs/heads/main''\<rparr>"

text \<open>A routing table whose explicit entry for a project is the empty list.\<close>

definition mutedMapping :: Mapping where
  "mutedMapping = \<lparr>DefaultChannel = ''#default'',
     GroupMappings = [''infra'' \<mapsto> [''#infra'']],
     ExplicitMappings = [''infra/bridge'' \<mapsto> []]\<rparr>"

text \<open>A request whose body no struct can be decoded from, and events of the other kinds.\<close>

definition undecodable :: "string \<Rightarrow> Request" where
  "undecodable eventType =
     \<lparr>X_Gitlab_Event = [eventType],
      Decode_PipelineEvent = Inl ''unexpected end of JSON input'',
      Decode_JobEvent = Inl ''unexpected end of JSON input'',
      Decode_MergeEvent = Inl ''unexpected end of JSON input'',
      Decode_IssueEvent = Inl ''unexpected end of JSON input'',
      Decode_PushEvent = Inl ''unexpected end of JSON input'',
      Commits_spare = 0\<rparr>"

definition twoCommits :: "Commit list" where
  "twoCommits = [sampleCommit ''1111111aaaaaaaaaaaaaaaaaaaaaaaaaaaaaaaaa'',
                 sampleCommit ''2222222aaaaaaaaaaaaaaaaaaaaaaaaaaaaaaaaa'']"

definition samplePipeline :: "string \<Rightarrow> string \<Rightarrow> PipelineEvent" where
  "samplePipeline commit status =
     \<lparr>PipelineEvent_Pipeline = \<lparr>Pipeline_Id = 31, Pipeline_Commit = commit,
        Pipeline_Status = status, Pipeline_Duration = ''0''\<rparr>,
      PipelineEvent_Project = sampleProject\<rparr>"

definition sampleJob :: "string \<Rightarrow> JobEvent" where
  "sampleJob status =
     \<lparr>JobEvent_Id = 12, JobEvent_Name = ''test'', JobEvent_Status = status,
      JobEvent_Duration = ''0'', JobEvent_Commit = hashA,
      JobEvent_Repository = \<lparr>Repository_Name = ''tools'',
        Repository_Homepage = ''https://git.example/misc/tools'',
        Repository_URL = ''git@git.example:misc/tools.git''\<rparr>\<rparr>"

definition sampleMerge :: "string \<Rightarrow> MergeEvent" where
  "sampleMerge action =
     \<lparr>MergeEvent_User = \<lparr>User_Name = ''alice''\<rparr>, MergeEvent_Project = sampleProject,
      MergeEvent_Merge = \<lparr>Merge_Iid = 7, Merge_Action = action, Merge_Title = ''Fix typo'',
        Merge_URL = ''https://git.example/misc/tools/merge_requests/7''\<rparr>\<rparr>"

definition sampleIssue :: "string \<Rightarrow> IssueEvent" where
  "sampleIssue action =
     \<lparr>IssueEvent_User = \<lparr>User_Name = ''alice''\<rparr>, IssueEvent_Project = sampleProject,
      IssueEvent_Issue = \<lparr>Issue_Iid = 4, Issue_Action = action, Issue_Title = ''Crash'',
        Issue_Description = [], Issue_URL = ''https://git.example/misc/tools/issues/4''\<rparr>\<rparr>"

section \<open>Delivery and channel resolution\<close>

lemma appendAll_eq: "appendAll acc list = acc @ list"
  unfolding appendAll_def by (induction list arbitrary: acc) simp_all

lemma foldl_snoc_pairs:
  "foldl (\<lambda>c channelName. c @ [(channelName, message)]) conn names
     = conn @ map (\<lambda>channelName. (channelName, message)) names"
  by (induction names arbitrary: conn) simp_all

lemma sendMessage_eq:
  "sendMessage message projectName namespace channelMapping conn
     = conn @ map (\<lambda>channelName. (channelName, message))
                (channelNames projectName namespace channelMapping)"
  unfolding sendMessage_def by (rule foldl_snoc_pairs)

lemma channelNames_eq:
  "channelNames projectName namespace channelMapping =
     (case ExplicitMappings channelMapping (namespace @ ''/'' @ projectName) of
        Some destinations \<Rightarrow> destinations
      | None \<Rightarrow>
         (case GroupMappings channelMapping namespace of
            Some destinations \<Rightarrow> destinations
          | None \<Rightarrow> [DefaultChannel channelMapping]))"
  by (auto simp: channelNames_def contains_def lookup_def appendAll_eq Let_def dom_def
           split: option.splits)

lemma deliver_Nil: "deliver channelMapping project [] conn = conn"
  by (simp add: deliver_def)

lemma deliver_Cons:
  "deliver channelMapping project (line # lines) conn =
     deliver channelMapping project lines
       (sendMessage line (Project_Name project) (Project_Namespace project) channelMapping conn)"
  by (simp add: deliver_def)

lemma deliver_append:
  "deliver channelMapping project (lines @ lines2) conn =
     deliver channelMapping project lines2 (deliver channelMapping project lines conn)"
  by (simp add: deliver_def)

lemma deliver_eq:
  "deliver channelMapping project lines conn =
     conn @ concat (map (\<lambda>line. map (\<lambda>channelName. (channelName, line))
        (channelNames (Project_Name project) (Project_Namespace project) channelMapping)) lines)"
proof (induction lines arbitrary: conn)
  case Nil
  show ?case by (simp add: deliver_Nil)
next
  case (Cons line lines)
  show ?case by (simp add: deliver_Cons Cons.IH sendMessage_eq)
qed

lemma sample_channel: "channelNames ''tools'' ''misc'' sampleMapping = [''#default'']"
  by (simp add: channelNames_eq sampleMapping_def)

lemma deliver_default:
  "deliver sampleMapping sampleProject lines conn = conn @ map (\<lambda>line. (''#default'', line)) lines"
proof -
  have "channelNames (Project_Name sampleProject) (Project_Namespace sampleProject) sampleMapping
          = [''#default'']"
    using sample_channel by (simp add: sampleProject_def)
  then show ?thesis
    by (simp add: deliver_eq concat_map_singleton)
qed

lemma sample_nonempty: "nonempty_destinations sampleMapping"
  by (auto simp: nonempty_destinations_def sampleMapping_def split: if_splits)

text \<open>
  A project whose explicit entry is the empty list resolves to no channel at all: the
  default channel is not used and the message goes nowhere.
\<close>

theorem empty_destination_list_counterexample:
  "channelNames ''bridge'' ''infra'' mutedMapping = []
   \<and> sendMessage ''hello'' ''bridge'' ''infra'' mutedMapping [] = []"
  by (simp add: channelNames_eq sendMessage_eq mutedMapping_def)

text \<open>
  Claim C1, amended.  For every project identity and every routing table, the channels a
  message goes to are the explicit map's list when the key \<open>namespace/name\<close> is in the
  explicit map, otherwise the group map's list when the namespace is in the group map,
  otherwise the default channel alone; the message is sent to exactly these channels, in
  their order.  Resolution is a total function: nothing in it can fail.  The result is
  not empty for every routing table that keeps the invariant of having no empty
  destination list.
\<close>

theorem channel_resolution:
  "channelNames projectName namespace channelMapping =
     (case ExplicitMappings channelMapping (namespace @ ''/'' @ projectName) of
        Some destinations \<Rightarrow> destinations
      | None \<Rightarrow>
         (case GroupMappings channelMapping namespace of
            Some destinations \<Rightarrow> destinations
          | None \<Rightarrow> [DefaultChannel channelMapping]))
   \<and> (nonempty_destinations channelMapping \<longrightarrow>
        channelNames projectName namespace channelMapping \<noteq> [])
   \<and> sendMessage message projectName namespace channelMapping conn
       = conn @ map (\<lambda>channelName. (channelName, message))
                  (channelNames projectName namespace channelMapping)"
proof (intro conjI impI)
  show "channelNames projectName namespace channelMapping =
     (case ExplicitMappings channelMapping (namespace @ ''/'' @ projectName) of
        Some destinations \<Rightarrow> destinations
      | None \<Rightarrow>
         (case GroupMappings channelMapping namespace of
            Some destinations \<Rightarrow> destinations
          | None \<Rightarrow> [DefaultChannel channelMapping]))"
    by (rule channelNames_eq)
next
  assume inv: "nonempty_destinations channelMapping"
  show "channelNames projectName namespace channelMapping \<noteq> []"
  proof (cases "ExplicitMappings channelMapping (namespace @ ''/'' @ projectName)")
    case (Some destinations)
    with inv have "destinations \<noteq> []" unfolding nonempty_destinations_def by blast
    with Some show ?thesis by (simp add: channelNames_eq)
  next
    case None
    show ?thesis
    proof (cases "GroupMappings channelMapping namespace")
      case (Some destinations)
      with inv have "destinations \<noteq> []" unfolding nonempty_destinations_def by blast
      with None Some show ?thesis by (simp add: channelNames_eq)
    next
      case None': None
      with None show ?thesis by (simp add: channelNames_eq)
    qed
  qed
next
  show "sendMessage message projectName namespace channelMapping conn
       = conn @ map (\<lambda>channelName. (channelName, message))
                  (channelNames projectName namespace channelMapping)"
    by (rule sendMessage_eq)
qed

theorem channel_resolution_witness:
  "channelNames ''bridge'' ''infra'' sampleMapping = [''#bridge'', ''#ops'']
   \<and> nonempty_destinations sampleMapping
   \<and> channelNames ''bridge'' ''infra'' sampleMapping \<noteq> []
   \<and> sendMessage ''hello'' ''bridge'' ''infra'' sampleMapping []
       = [(''#bridge'', ''hello''), (''#ops'', ''hello'')]"
  using channel_resolution [of "''bridge''" "''infra''" sampleMapping "''hello''" "[]"]
    sample_nonempty
  by (simp add: sampleMapping_def)

section \<open>Events that are dropped\<close>

text \<open>
  Claim C7.  A pipeline event with status \<open>pending\<close> is dropped before anything else is
  done with it, the shortening of its commit hash included: the handler returns and the
  connection has received no message.
\<close>

theorem pending_pipeline_dropped:
  assumes "X_Gitlab_Event req = ''Pipeline Hook'' # others"
    and "Decode_PipelineEvent req = Inr pipelineEvent"
    and "Pipeline_Status (PipelineEvent_Pipeline pipelineEvent) = ''pending''"
  shows "CreateFunctionNotifyFunction channelMapping req conn = (Returned, conn)"
  using assms by (simp add: CreateFunctionNotifyFunction_def index_def PipelineHook_def)

theorem pending_pipeline_dropped_witness:
  "CreateFunctionNotifyFunction sampleMapping
     ((undecodable ''Pipeline Hook'')\<lparr>Decode_PipelineEvent := Inr (samplePipeline ''abc'' ''pending'')\<rparr>)
     [] = (Returned, [])"
  using pending_pipeline_dropped [where req = "(undecodable ''Pipeline Hook'')\<lparr>Decode_PipelineEvent := Inr (samplePipeline ''abc'' ''pending'')\<rparr>"
     and others = "[]" and pipelineEvent = "samplePipeline ''abc'' ''pending''"
     and channelMapping = sampleMapping and conn = "[]"]
  by (simp add: undecodable_def samplePipeline_def)

text \<open>
  Claim C10.  A job event whose build status is neither \<open>success\<close> nor \<open>failed\<close> is
  dropped: the handler returns and the connection has received no message.
\<close>

theorem noisy_job_dropped:
  assumes "X_Gitlab_Event req = ''Job Hook'' # others"
    and "Decode_JobEvent req = Inr jobEvent"
    and "JobEvent_Status jobEvent \<noteq> ''success''"
    and "JobEvent_Status jobEvent \<noteq> ''failed''"
  shows "CreateFunctionNotifyFunction channelMapping req conn = (Returned, conn)"
  using assms by (simp add: CreateFunctionNotifyFunction_def index_def JobHook_def)

theorem noisy_job_dropped_witness:
  "CreateFunctionNotifyFunction sampleMapping
     ((undecodable ''Job Hook'')\<lparr>Decode_JobEvent := Inr (sampleJob ''running'')\<rparr>)
     [] = (Returned, [])"
  using noisy_job_dropped [where req = "(undecodable ''Job Hook'')\<lparr>Decode_JobEvent := Inr (sampleJob ''running'')\<rparr>"
     and others = "[]" and jobEvent = "sampleJob ''running''"
     and channelMapping = sampleMapping and conn = "[]"]
  by (simp add: undecodable_def sampleJob_def)

section \<open>Push events\<close>

lemma CommitContext_long:
  "width \<le> length (Commit_Id commit) \<Longrightarrow>
   CommitContext width unescape commit =
     Inr \<lparr>CommitContext_ShortID = take width (Commit_Id commit),
          CommitContext_Message = unescape (Commit_Message commit),
          CommitContext_Author = Commit_Author commit,
          CommitContext_AddedFiles = int (length (Commit_Added commit)),
          CommitContext_ModifiedFiles = int (length (Commit_Modified commit)),
          CommitContext_RemovedFiles = int (length (Commit_Removed commit))\<rparr>"
  by (simp add: CommitContext_def slice_to_def)

lemma CommitContext_short:
  "length (Commit_Id commit) < width \<Longrightarrow>
   CommitContext width unescape commit =
     Inl (SliceBoundsOutOfRange width (length (Commit_Id commit)))"
  by (simp add: CommitContext_def slice_to_def)

lemma commitLoop_lines:
  "\<forall>commit \<in> set commits. 7 \<le> length (Commit_Id commit) \<Longrightarrow>
   commitLoop channelMapping pushEvent commits conn =
     (None, deliver channelMapping (PushEvent_Project pushEvent) (map commitLine commits) conn)"
proof (induction commits arbitrary: conn)
  case Nil
  show ?case by (simp add: deliver_Nil)
next
  case (Cons commit commits)
  from Cons.prems have long: "7 \<le> length (Commit_Id commit)" by simp
  from Cons.prems have rest: "\<forall>c \<in> set commits. 7 \<le> length (Commit_Id c)" by simp
  show ?case
    by (simp add: CommitContext_long [OF long] Cons.IH [OF rest] deliver_Cons commitLine_def)
qed

lemma slice_commits_take:
  "n \<le> length commits \<Longrightarrow> slice_commits commits spare n = Inr (take n commits)"
  by (simp add: slice_commits_def)

lemma pushSummary_sentinel:
  "PushEvent_BeforeCommit pushEvent = NullCommit \<Longrightarrow>
   pushSummary pushEvent = Inr (pushCommitLogTemplate pushEvent, pushEvent)"
  by (simp add: pushSummary_def)

lemma dispatch_push:
  assumes "X_Gitlab_Event req = eventType # others"
    and "eventType = ''Push Hook'' \<or> eventType = ''Push Event''"
  shows "CreateFunctionNotifyFunction channelMapping req conn =
           PushHook channelMapping (Decode_PushEvent req) (Commits_spare req) conn"
  using assms by (auto simp: CreateFunctionNotifyFunction_def index_def)

text \<open>The lines of a push with commits that does not delete its branch.\<close>

lemma PushHook_commits:
  assumes branch: "index (Split (PushEvent_Branch e) CHR ''/'') 2 = Inr branch"
    and after: "PushEvent_AfterCommit e \<noteq> NullCommit"
    and total: "0 < PushEvent_TotalCommits e"
    and hashes: "PushEvent_BeforeCommit e \<noteq> NullCommit \<longrightarrow>
                   7 \<le> length (PushEvent_BeforeCommit e) \<and> 7 \<le> length (PushEvent_AfterCommit e)"
    and listed: "3 < PushEvent_TotalCommits e \<longrightarrow> 3 \<le> length (PushEvent_Commits e)"
    and ids: "\<forall>commit \<in> set (if 3 < PushEvent_TotalCommits e then take 3 (PushEvent_Commits e)
                                else PushEvent_Commits e). 7 \<le> length (Commit_Id commit)"
  shows "PushHook channelMapping (Inr e) spare conn =
     (Returned, deliver channelMapping (PushEvent_Project e)
        ((if PushEvent_BeforeCommit e = NullCommit
          then [branchCreateTemplate (e\<lparr>PushEvent_Branch := branch\<rparr>),
                pushCommitLogTemplate (e\<lparr>PushEvent_Branch := branch\<rparr>)]
          else [pushCompareTemplate (e\<lparr>PushEvent_Branch := branch,
                  PushEvent_BeforeCommit := take 7 (PushEvent_BeforeCommit e),
                  PushEvent_AfterCommit := take 7 (PushEvent_AfterCommit e)\<rparr>)])
         @ map commitLine (if 3 < PushEvent_TotalCommits e then take 3 (PushEvent_Commits e)
                           else PushEvent_Commits e)
         @ (if 3 < PushEvent_TotalCommits e then [moreCommits (PushEvent_TotalCommits e - 3)]
            else [])) conn)"
proof (cases "PushEvent_BeforeCommit e = NullCommit")
  case True
  show ?thesis
  proof (cases "3 < PushEvent_TotalCommits e")
    case many: True
    with listed have "3 \<le> length (PushEvent_Commits e)" by simp
    then have sl: "slice_commits (PushEvent_Commits e) spare 3 = Inr (take 3 (PushEvent_Commits e))"
      by (rule slice_commits_take)
    from ids many have "\<forall>commit \<in> set (take 3 (PushEvent_Commits e)). 7 \<le> length (Commit_Id commit)"
      by simp
    note loop = commitLoop_lines [OF this]
    show ?thesis
      using True many after total branch
      by (simp add: PushHook_def Let_def pushSummary_sentinel sl loop deliver_Cons deliver_append
            deliver_Nil)
  next
    case few: False
    from ids few have "\<forall>commit \<in> set (PushEvent_Commits e). 7 \<le> length (Commit_Id commit)"
      by simp
    note loop = commitLoop_lines [OF this]
    show ?thesis
      using True few after total branch
      by (simp add: PushHook_def Let_def pushSummary_sentinel loop deliver_Cons deliver_append
            deliver_Nil)
  qed
next
  case False
  with hashes have len: "7 \<le> length (PushEvent_BeforeCommit e)" "7 \<le> length (PushEvent_AfterCommit e)"
    by simp_all
  have summ: "pushSummary (e\<lparr>PushEvent_Branch := branch\<rparr>) =
      Inr (pushCompareTemplate (e\<lparr>PushEvent_Branch := branch,
                  PushEvent_BeforeCommit := take 7 (PushEvent_BeforeCommit e),
                  PushEvent_AfterCommit := take 7 (PushEvent_AfterCommit e)\<rparr>),
           e\<lparr>PushEvent_Branch := branch,
                  PushEvent_BeforeCommit := take 7 (PushEvent_BeforeCommit e),
                  PushEvent_AfterCommit := take 7 (PushEvent_AfterCommit e)\<rparr>)"
    using False len by (simp add: pushSummary_def slice_to_def Let_def)
  show ?thesis
  proof (cases "3 < PushEvent_TotalCommits e")
    case many: True
    with listed have "3 \<le> length (PushEvent_Commits e)" by simp
    then have sl: "slice_commits (PushEvent_Commits e) spare 3 = Inr (take 3 (PushEvent_Commits e))"
      by (rule slice_commits_take)
    from ids many have "\<forall>commit \<in> set (take 3 (PushEvent_Commits e)). 7 \<le> length (Commit_Id commit)"
      by simp
    note loop = commitLoop_lines [OF this]
    show ?thesis
      using False many after total branch
      by (simp add: PushHook_def Let_def summ sl loop deliver_Cons deliver_append deliver_Nil)
  next
    case few: False
    from ids few have "\<forall>commit \<in> set (PushEvent_Commits e). 7 \<le> length (Commit_Id commit)"
      by simp
    note loop = commitLoop_lines [OF this]
    show ?thesis
      using False few after total branch
      by (simp add: PushHook_def Let_def summ loop deliver_Cons deliver_append deliver_Nil)
  qed
qed

text \<open>The lines of a push whose total commit count is not positive.\<close>

lemma PushHook_no_commits:
  assumes branch: "index (Split (PushEvent_Branch e) CHR ''/'') 2 = Inr branch"
    and total: "PushEvent_TotalCommits e \<le> 0"
  shows "PushHook channelMapping (Inr e) spare conn =
     (Returned, deliver channelMapping (PushEvent_Project e)
        (if PushEvent_AfterCommit e = NullCommit
         then [branchDeleteTemplate (e\<lparr>PushEvent_Branch := branch\<rparr>)]
         else if PushEvent_BeforeCommit e = NullCommit
         then [branchCreateTemplate (e\<lparr>PushEvent_Branch := branch\<rparr>)]
         else []) conn)"
  using assms by (simp add: PushHook_def Let_def deliver_Cons deliver_Nil)

text \<open>A push whose after-hash is the sentinel sends the branch-delete line and nothing else.\<close>

lemma PushHook_deleted:
  assumes branch: "index (Split (PushEvent_Branch e) CHR ''/'') 2 = Inr branch"
    and "PushEvent_AfterCommit e = NullCommit"
  shows "PushHook channelMapping (Inr e) spare conn =
     (Returned, deliver channelMapping (PushEvent_Project e)
        [branchDeleteTemplate (e\<lparr>PushEvent_Branch := branch\<rparr>)] conn)"
  using assms by (simp add: PushHook_def Let_def deliver_Cons deliver_Nil)

text \<open>
  A push of five commits to a new branch: the branch-create line comes first, before the
  summary line, so the lines are six.
\<close>

theorem new_branch_push_counterexample:
  "CreateFunctionNotifyFunction sampleMapping
     (pushRequest ''Push Hook'' (samplePush NullCommit hashB 5 fiveCommits) 0) []
   = (Returned,
      [(''#default'', branchCreateTemplate (samplePush NullCommit hashB 5 fiveCommits
           \<lparr>PushEvent_Branch := ''main''\<rparr>)),
       (''#default'', pushCommitLogTemplate (samplePush NullCommit hashB 5 fiveCommits
           \<lparr>PushEvent_Branch := ''main''\<rparr>)),
       (''#default'', commitLine (sampleCommit ''1111111aaaaaaaaaaaaaaaaaaaaaaaaaaaaaaaaa'')),
       (''#default'', commitLine (sampleCommit ''2222222aaaaaaaaaaaaaaaaaaaaaaaaaaaaaaaaa'')),
       (''#default'', commitLine (sampleCommit ''3333333aaaaaaaaaaaaaaaaaaaaaaaaaaaaaaaaa'')),
       (''#default'', moreCommits 2)])"
proof -
  have "CreateFunctionNotifyFunction sampleMapping
     (pushRequest ''Push Hook'' (samplePush NullCommit hashB 5 fiveCommits) 0) []
     = PushHook sampleMapping (Inr (samplePush NullCommit hashB 5 fiveCommits)) 0 []"
    by (simp add: CreateFunctionNotifyFunction_def pushRequest_def index_def)
  then show ?thesis
    using PushHook_commits [where e = "samplePush NullCommit hashB 5 fiveCommits"
        and branch = "''main''" and spare = 0 and channelMapping = sampleMapping and conn = "[]"]
    by (simp add: samplePush_def fiveCommits_def sampleCommit_def
        hashB_def NullCommit_def index_def deliver_default)
qed

text \<open>
  Claim C5, amended.  For every push event with more than 3 commits whose after-hash is
  not the sentinel, the handler sends, in this order: the branch-create line when the
  before-hash is the sentinel, one push-summary line, one commit line for each of the
  first 3 commits, and one \<open>and N more commits.\<close> line with N the total commit count
  minus 3.  (The ref has a third component and the displayed hashes have at least 7
  characters.)
\<close>

theorem push_many_commits:
  assumes "X_Gitlab_Event req = eventType # others"
    and "eventType = ''Push Hook'' \<or> eventType = ''Push Event''"
    and "Decode_PushEvent req = Inr e"
    and "index (Split (PushEvent_Branch e) CHR ''/'') 2 = Inr branch"
    and "PushEvent_AfterCommit e \<noteq> NullCommit"
    and "3 < PushEvent_TotalCommits e"
    and "3 \<le> length (PushEvent_Commits e)"
    and "\<forall>commit \<in> set (take 3 (PushEvent_Commits e)). 7 \<le> length (Commit_Id commit)"
    and "PushEvent_BeforeCommit e \<noteq> NullCommit \<longrightarrow>
           7 \<le> length (PushEvent_BeforeCommit e) \<and> 7 \<le> length (PushEvent_AfterCommit e)"
  shows "CreateFunctionNotifyFunction channelMapping req conn =
     (Returned, deliver channelMapping (PushEvent_Project e)
        ((if PushEvent_BeforeCommit e = NullCommit
          then [branchCreateTemplate (e\<lparr>PushEvent_Branch := branch\<rparr>),
                pushCommitLogTemplate (e\<lparr>PushEvent_Branch := branch\<rparr>)]
          else [pushCompareTemplate (e\<lparr>PushEvent_Branch := branch,
                  PushEvent_BeforeCommit := take 7 (PushEvent_BeforeCommit e),
                  PushEvent_AfterCommit := take 7 (PushEvent_AfterCommit e)\<rparr>)])
         @ map commitLine (take 3 (PushEvent_Commits e))
         @ [moreCommits (PushEvent_TotalCommits e - 3)]) conn)"
proof -
  have "CreateFunctionNotifyFunction channelMapping req conn =
          PushHook channelMapping (Inr e) (Commits_spare req) conn"
    using assms(1-3) dispatch_push [of req eventType others channelMapping conn] by simp
  also have "\<dots> = (Returned, deliver channelMapping (PushEvent_Project e)
        ((if PushEvent_BeforeCommit e = NullCommit
          then [branchCreateTemplate (e\<lparr>PushEvent_Branch := branch\<rparr>),
                pushCommitLogTemplate (e\<lparr>PushEvent_Branch := branch\<rparr>)]
          else [pushCompareTemplate (e\<lparr>PushEvent_Branch := branch,
                  PushEvent_BeforeCommit := take 7 (PushEvent_BeforeCommit e),
                  PushEvent_AfterCommit := take 7 (PushEvent_AfterCommit e)\<rparr>)])
         @ map commitLine (take 3 (PushEvent_Commits e))
         @ [moreCommits (PushEvent_TotalCommits e - 3)]) conn)"
    using PushHook_commits [where e = e and branch = branch and spare = "Commits_spare req"
        and channelMapping = channelMapping and conn = conn] assms(4-9)
    by simp
  finally show ?thesis .
qed

theorem push_many_commits_witness:
  "CreateFunctionNotifyFunction sampleMapping
     (pushRequest ''Push Event'' (samplePush hashA hashB 5 fiveCommits) 0) []
   = (Returned,
      [(''#default'', pushCompareTemplate (samplePush hashA hashB 5 fiveCommits
           \<lparr>PushEvent_Branch := ''main'', PushEvent_BeforeCommit := ''a3f5c2d'',
            PushEvent_AfterCommit := ''b81e04c''\<rparr>)),
       (''#default'', commitLine (sampleCommit ''1111111aaaaaaaaaaaaaaaaaaaaaaaaaaaaaaaaa'')),
       (''#default'', commitLine (sampleCommit ''2222222aaaaaaaaaaaaaaaaaaaaaaaaaaaaaaaaa'')),
       (''#default'', commitLine (sampleCommit ''3333333aaaaaaaaaaaaaaaaaaaaaaaaaaaaaaaaa'')),
       (''#default'', moreCommits 2)])"
  using push_many_commits [where req = "pushRequest ''Push Event'' (samplePush hashA hashB 5 fiveCommits) 0"
      and eventType = "''Push Event''" and others = "[]"
      and e = "samplePush hashA hashB 5 fiveCommits" and branch = "''main''"
      and channelMapping = sampleMapping and conn = "[]"]
  by (simp add: pushRequest_def samplePush_def fiveCommits_def sampleCommit_def hashA_def
        hashB_def NullCommit_def index_def deliver_default)

text \<open>
  Claim C6.  For every push event whose before-hash is the 40 zeros and whose after-hash
  is not, the handler sends exactly one branch-create line first; when the total commit
  count is positive, the push-summary line and at most 3 commit lines follow (and then
  the \<open>and N more commits.\<close> line of a push with more than 3 commits); when it is not,
  nothing follows.  The sentinel is compared on the hashes as decoded: nothing is
  shortened on this path, and the shortened sentinel would no longer equal the sentinel.
  (The ref has a third component; the commit list is no longer than the total count,
  holds 3 commits when the count exceeds 3, and its displayed ids have at least 7
  characters.)
\<close>

theorem branch_creation_lines:
  assumes "X_Gitlab_Event req = eventType # others"
    and "eventType = ''Push Hook'' \<or> eventType = ''Push Event''"
    and "Decode_PushEvent req = Inr e"
    and "index (Split (PushEvent_Branch e) CHR ''/'') 2 = Inr branch"
    and "PushEvent_BeforeCommit e = NullCommit"
    and "PushEvent_AfterCommit e \<noteq> NullCommit"
    and "0 < PushEvent_TotalCommits e \<longrightarrow>
           int (length (PushEvent_Commits e)) \<le> PushEvent_TotalCommits e
           \<and> (3 < PushEvent_TotalCommits e \<longrightarrow> 3 \<le> length (PushEvent_Commits e))
           \<and> (\<forall>commit \<in> set (take 3 (PushEvent_Commits e)). 7 \<le> length (Commit_Id commit))"
  shows "CreateFunctionNotifyFunction channelMapping req conn =
     (Returned, deliver channelMapping (PushEvent_Project e)
        (branchCreateTemplate (e\<lparr>PushEvent_Branch := branch\<rparr>)
         # (if 0 < PushEvent_TotalCommits e
            then pushCommitLogTemplate (e\<lparr>PushEvent_Branch := branch\<rparr>)
                 # map commitLine (take 3 (PushEvent_Commits e))
                 @ (if 3 < PushEvent_TotalCommits e
                    then [moreCommits (PushEvent_TotalCommits e - 3)] else [])
            else [])) conn)
     \<and> length (map commitLine (take 3 (PushEvent_Commits e))) \<le> 3
     \<and> slice_to NullCommit 7 = Inr ''0000000'' \<and> ''0000000'' \<noteq> NullCommit"
proof (intro conjI)
  have disp: "CreateFunctionNotifyFunction channelMapping req conn =
          PushHook channelMapping (Inr e) (Commits_spare req) conn"
    using assms(1-3) dispatch_push [where req = req and eventType = eventType and others = others
        and channelMapping = channelMapping and conn = conn] by simp
  show "CreateFunctionNotifyFunction channelMapping req conn =
     (Returned, deliver channelMapping (PushEvent_Project e)
        (branchCreateTemplate (e\<lparr>PushEvent_Branch := branch\<rparr>)
         # (if 0 < PushEvent_TotalCommits e
            then pushCommitLogTemplate (e\<lparr>PushEvent_Branch := branch\<rparr>)
                 # map commitLine (take 3 (PushEvent_Commits e))
                 @ (if 3 < PushEvent_TotalCommits e
                    then [moreCommits (PushEvent_TotalCommits e - 3)] else [])
            else [])) conn)"
  proof (cases "0 < PushEvent_TotalCommits e")
    case True
    with assms(7) have len: "int (length (PushEvent_Commits e)) \<le> PushEvent_TotalCommits e"
      and listed: "3 < PushEvent_TotalCommits e \<longrightarrow> 3 \<le> length (PushEvent_Commits e)"
      and ids: "\<forall>commit \<in> set (take 3 (PushEvent_Commits e)). 7 \<le> length (Commit_Id commit)"
      by simp_all
    have same: "(if 3 < PushEvent_TotalCommits e then take 3 (PushEvent_Commits e)
                 else PushEvent_Commits e) = take 3 (PushEvent_Commits e)"
      using len by simp
    have ids': "\<forall>commit \<in> set (if 3 < PushEvent_TotalCommits e then take 3 (PushEvent_Commits e)
                                else PushEvent_Commits e). 7 \<le> length (Commit_Id commit)"
      using ids unfolding same .
    have hashes: "PushEvent_BeforeCommit e \<noteq> NullCommit \<longrightarrow>
                   7 \<le> length (PushEvent_BeforeCommit e) \<and> 7 \<le> length (PushEvent_AfterCommit e)"
      using assms(5) by simp
    show ?thesis
      using PushHook_commits [OF assms(4) assms(6) True hashes listed ids',
          where channelMapping = channelMapping and spare = "Commits_spare req" and conn = conn]
        True assms(5) disp
      by (simp add: same)
  next
    case False
    then have "PushEvent_TotalCommits e \<le> 0" by simp
    from PushHook_no_commits [OF assms(4) this, where channelMapping = channelMapping
        and spare = "Commits_spare req" and conn = conn]
    show ?thesis using False assms(5,6) disp by simp
  qed
next
  show "length (map commitLine (take 3 (PushEvent_Commits e))) \<le> 3" by simp
next
  show "slice_to NullCommit 7 = Inr ''0000000''" by (simp add: slice_to_def NullCommit_def)
next
  show "''0000000'' \<noteq> NullCommit" by (simp add: NullCommit_def)
qed

theorem branch_creation_lines_witness:
  "CreateFunctionNotifyFunction sampleMapping
     (pushRequest ''Push Hook'' (samplePush NullCommit hashB 2 twoCommits) 0) []
   = (Returned,
      [(''#default'', branchCreateTemplate (samplePush NullCommit hashB 2 twoCommits
           \<lparr>PushEvent_Branch := ''main''\<rparr>)),
       (''#default'', pushCommitLogTemplate (samplePush NullCommit hashB 2 twoCommits
           \<lparr>PushEvent_Branch := ''main''\<rparr>)),
       (''#default'', commitLine (sampleCommit ''1111111aaaaaaaaaaaaaaaaaaaaaaaaaaaaaaaaa'')),
       (''#default'', commitLine (sampleCommit ''2222222aaaaaaaaaaaaaaaaaaaaaaaaaaaaaaaaa''))])"
  using branch_creation_lines [where req = "pushRequest ''Push Hook'' (samplePush NullCommit hashB 2 twoCommits) 0"
      and eventType = "''Push Hook''" and others = "[]"
      and e = "samplePush NullCommit hashB 2 twoCommits" and branch = "''main''"
      and channelMapping = sampleMapping and conn = "[]"]
  by (simp add: pushRequest_def samplePush_def twoCommits_def sampleCommit_def
        hashB_def NullCommit_def index_def deliver_default)

text \<open>
  A push event with no commits and two real hashes: the handler sends nothing, the
  summary line included.
\<close>

theorem empty_push_counterexample:
  "CreateFunctionNotifyFunction sampleMapping
     (pushRequest ''Push Hook'' (samplePush hashA hashB 0 []) 0) [] = (Returned, [])"
  by (simp add: CreateFunctionNotifyFunction_def pushRequest_def index_def PushHook_def
        samplePush_def hashA_def hashB_def NullCommit_def)

text \<open>
  Claim C8, amended.  For every push event with 0 commits, the handler sends no commit
  line, no \<open>more commits\<close> line and no push-summary line: it sends the branch-delete line
  when the after-hash is the sentinel, otherwise the branch-create line when the
  before-hash is the sentinel, otherwise nothing.  (The ref has a third component.)
\<close>

theorem push_without_commits:
  assumes "X_Gitlab_Event req = eventType # others"
    and "eventType = ''Push Hook'' \<or> eventType = ''Push Event''"
    and "Decode_PushEvent req = Inr e"
    and "index (Split (PushEvent_Branch e) CHR ''/'') 2 = Inr branch"
    and "PushEvent_TotalCommits e = 0"
  shows "CreateFunctionNotifyFunction channelMapping req conn =
     (Returned, deliver channelMapping (PushEvent_Project e)
        (if PushEvent_AfterCommit e = NullCommit
         then [branchDeleteTemplate (e\<lparr>PushEvent_Branch := branch\<rparr>)]
         else if PushEvent_BeforeCommit e = NullCommit
         then [branchCreateTemplate (e\<lparr>PushEvent_Branch := branch\<rparr>)]
         else []) conn)"
proof -
  have "CreateFunctionNotifyFunction channelMapping req conn =
          PushHook channelMapping (Inr e) (Commits_spare req) conn"
    using assms(1-3) dispatch_push [where req = req and eventType = eventType and others = others
        and channelMapping = channelMapping and conn = conn] by simp
  moreover have "PushEvent_TotalCommits e \<le> 0" using assms(5) by simp
  ultimately show ?thesis
    using PushHook_no_commits [OF assms(4), where channelMapping = channelMapping
        and spare = "Commits_spare req" and conn = conn]
    by simp
qed

theorem push_without_commits_witness:
  "CreateFunctionNotifyFunction sampleMapping
     (pushRequest ''Push Event'' (samplePush NullCommit hashB 0 []) 0) []
   = (Returned,
      [(''#default'', branchCreateTemplate (samplePush NullCommit hashB 0 []
           \<lparr>PushEvent_Branch := ''main''\<rparr>))])"
  using push_without_commits [where req = "pushRequest ''Push Event'' (samplePush NullCommit hashB 0 []) 0"
      and eventType = "''Push Event''" and others = "[]"
      and e = "samplePush NullCommit hashB 0 []" and branch = "''main''"
      and channelMapping = sampleMapping and conn = "[]"]
  by (simp add: pushRequest_def samplePush_def hashB_def NullCommit_def index_def deliver_default)

section \<open>Branch names\<close>

text \<open>
  Claim C2.  The branch name the handler renders is the component at index 2 of the ref
  split on \<open>/\<close>, and nothing after it: for the ref \<open>refs/heads/feature/x\<close> both variants
  of the handler render the branch \<open>feature\<close>, where the components from index 2 onward,
  joined again, are \<open>feature/x\<close>.
\<close>

theorem branch_with_slash:
  "index (Split ''refs/heads/feature/x'' CHR ''/'') 2 = Inr ''feature''
   \<and> Join (drop 2 (Split ''refs/heads/feature/x'' CHR ''/'')) CHR ''/'' = ''feature/x''
   \<and> CreateFunctionNotifyFunction sampleMapping
        (pushRequest ''Push Hook''
           ((samplePush NullCommit hashB 0 [])\<lparr>PushEvent_Branch := ''refs/heads/feature/x''\<rparr>) 0) []
       = (Returned, [(''#default'', ''['' @ [ETX] @ ''12tools'' @ [ETX]
            @ ''] alice created the branch '' @ [ETX] @ ''05feature'' @ [ETX])])
   \<and> CreateFunctionNotifyFunction_main sampleMapping
        (pushRequest ''Push Hook''
           ((samplePush NullCommit hashB 0 [])\<lparr>PushEvent_Branch := ''refs/heads/feature/x''\<rparr>) 0) []
       = (Returned, [(''#default'', ''['' @ [ETX] @ ''12tools'' @ [ETX]
            @ ''] alice pushed 0 new commits to '' @ [ETX] @ ''05feature'' @ [ETX])])"
  by (simp add: index_def CreateFunctionNotifyFunction_def CreateFunctionNotifyFunction_main_def
        pushRequest_def PushHook_def PushHook_main_def samplePush_def hashB_def NullCommit_def
        branchCreateTemplate_def pushTemplate_main_def projectTag_def htmlEscaper_def
        sampleProject_def sendMessage_eq sample_channel Itoa_def digits.simps digit_def)

section \<open>Unknown keywords\<close>

lemma HookActions_unknown: "\<not> knownAction action \<Longrightarrow> HookActions action = []"
  by (simp add: knownAction_def HookActions_def)

text \<open>
  A merge request event with the action \<open>approved\<close>: the handler returns normally and has
  sent one line, in which nothing stands where the action verb would (two spaces follow
  the user name).  A pipeline event with the status \<open>canceled\<close>: nothing is sent.
\<close>

theorem unknown_action_counterexample:
  "CreateFunctionNotifyFunction sampleMapping
     ((undecodable ''Merge Request Hook'')\<lparr>Decode_MergeEvent := Inr (sampleMerge ''approved'')\<rparr>) []
   = (Returned,
      [(''#default'', ''['' @ [ETX] @ ''12tools'' @ [ETX] @ ''] alice  merge request '' @ [ETX]
          @ ''08#7'' @ [ETX] @ '': Fix typo https://git.example/misc/tools/merge_requests/7'')])
   \<and> CreateFunctionNotifyFunction sampleMapping
     ((undecodable ''Pipeline Hook'')\<lparr>Decode_PipelineEvent := Inr (samplePipeline hashA ''canceled'')\<rparr>) []
   = (Returned, [])"
  by (simp add: CreateFunctionNotifyFunction_def undecodable_def index_def MergeRequestHook_def
        PipelineHook_def sampleMerge_def samplePipeline_def HookActions_def mergeTemplate_def
        projectTag_def htmlEscaper_def Itoa_def digits.simps digit_def sampleProject_def
        sendMessage_eq sample_channel slice_to_def hashA_def)

text \<open>
  Claim C9, amended.  An issue or merge request event whose action is not one of open,
  update, close, reopen, merge is rendered and sent with the empty string for its
  action verb; the handler reports no error.  An unrecognized status is handled
  otherwise: a pipeline event whose status is none of pending, running, success, failed
  (and whose commit hash has at least 7 characters), and a job event whose status is
  neither success nor failed, are dropped without a message.
\<close>

theorem unknown_keywords:
  "(X_Gitlab_Event req = eventType # others
      \<and> (eventType = ''Issue Hook'' \<or> eventType = ''Issue Event'')
      \<and> Decode_IssueEvent req = Inr issueEvent
      \<and> \<not> knownAction (Issue_Action (IssueEvent_Issue issueEvent))
    \<longrightarrow> CreateFunctionNotifyFunction channelMapping req conn =
         (Returned, deliver channelMapping (IssueEvent_Project issueEvent)
            [issueTemplate (issueEvent\<lparr>IssueEvent_Issue :=
               (IssueEvent_Issue issueEvent)\<lparr>Issue_Action := []\<rparr>\<rparr>)] conn))
   \<and> (X_Gitlab_Event req = eventType # others
      \<and> (eventType = ''Merge Request Hook'' \<or> eventType = ''Merge Request Event'')
      \<and> Decode_MergeEvent req = Inr mergeEvent
      \<and> \<not> knownAction (Merge_Action (MergeEvent_Merge mergeEvent))
    \<longrightarrow> CreateFunctionNotifyFunction channelMapping req conn =
         (Returned, deliver channelMapping (MergeEvent_Project mergeEvent)
            [mergeTemplate (mergeEvent\<lparr>MergeEvent_Merge :=
               (MergeEvent_Merge mergeEvent)\<lparr>Merge_Action := []\<rparr>\<rparr>)] conn))
   \<and> (X_Gitlab_Event req = ''Pipeline Hook'' # others
      \<and> Decode_PipelineEvent req = Inr pipelineEvent
      \<and> Pipeline_Status (PipelineEvent_Pipeline pipelineEvent)
           \<notin> {''pending'', ''running'', ''success'', ''failed''}
      \<and> 7 \<le> length (Pipeline_Commit (PipelineEvent_Pipeline pipelineEvent))
    \<longrightarrow> CreateFunctionNotifyFunction channelMapping req conn = (Returned, conn))
   \<and> (X_Gitlab_Event req = ''Job Hook'' # others
      \<and> Decode_JobEvent req = Inr jobEvent
      \<and> JobEvent_Status jobEvent \<notin> {''success'', ''failed''}
    \<longrightarrow> CreateFunctionNotifyFunction channelMapping req conn = (Returned, conn))"
proof (intro conjI impI)
  assume a: "X_Gitlab_Event req = eventType # others
      \<and> (eventType = ''Issue Hook'' \<or> eventType = ''Issue Event'')
      \<and> Decode_IssueEvent req = Inr issueEvent
      \<and> \<not> knownAction (Issue_Action (IssueEvent_Issue issueEvent))"
  then have "CreateFunctionNotifyFunction channelMapping req conn =
      IssueHook channelMapping (Inr issueEvent) conn"
    by (auto simp: CreateFunctionNotifyFunction_def index_def)
  with a show "CreateFunctionNotifyFunction channelMapping req conn =
         (Returned, deliver channelMapping (IssueEvent_Project issueEvent)
            [issueTemplate (issueEvent\<lparr>IssueEvent_Issue :=
               (IssueEvent_Issue issueEvent)\<lparr>Issue_Action := []\<rparr>\<rparr>)] conn)"
    by (simp add: IssueHook_def HookActions_unknown deliver_Cons deliver_Nil)
next
  assume a: "X_Gitlab_Event req = eventType # others
      \<and> (eventType = ''Merge Request Hook'' \<or> eventType = ''Merge Request Event'')
      \<and> Decode_MergeEvent req = Inr mergeEvent
      \<and> \<not> knownAction (Merge_Action (MergeEvent_Merge mergeEvent))"
  then have "CreateFunctionNotifyFunction channelMapping req conn =
      MergeRequestHook channelMapping (Inr mergeEvent) conn"
    by (auto simp: CreateFunctionNotifyFunction_def index_def)
  with a show "CreateFunctionNotifyFunction channelMapping req conn =
         (Returned, deliver channelMapping (MergeEvent_Project mergeEvent)
            [mergeTemplate (mergeEvent\<lparr>MergeEvent_Merge :=
               (MergeEvent_Merge mergeEvent)\<lparr>Merge_Action := []\<rparr>\<rparr>)] conn)"
    by (simp add: MergeRequestHook_def HookActions_unknown deliver_Cons deliver_Nil)
next
  assume "X_Gitlab_Event req = ''Pipeline Hook'' # others
      \<and> Decode_PipelineEvent req = Inr pipelineEvent
      \<and> Pipeline_Status (PipelineEvent_Pipeline pipelineEvent)
           \<notin> {''pending'', ''running'', ''success'', ''failed''}
      \<and> 7 \<le> length (Pipeline_Commit (PipelineEvent_Pipeline pipelineEvent))"
  then show "CreateFunctionNotifyFunction channelMapping req conn = (Returned, conn)"
    by (simp add: CreateFunctionNotifyFunction_def index_def PipelineHook_def slice_to_def Let_def)
next
  assume "X_Gitlab_Event req = ''Job Hook'' # others
      \<and> Decode_JobEvent req = Inr jobEvent
      \<and> JobEvent_Status jobEvent \<notin> {''success'', ''failed''}"
  then show "CreateFunctionNotifyFunction channelMapping req conn = (Returned, conn)"
    by (simp add: CreateFunctionNotifyFunction_def index_def JobHook_def)
qed

theorem unknown_keywords_witness:
  "CreateFunctionNotifyFunction sampleMapping
     ((undecodable ''Issue Hook'')\<lparr>Decode_IssueEvent := Inr (sampleIssue ''assign'')\<rparr>) []
   = (Returned, [(''#default'', issueTemplate (sampleIssue []))])
   \<and> CreateFunctionNotifyFunction sampleMapping
     ((undecodable ''Merge Request Hook'')\<lparr>Decode_MergeEvent := Inr (sampleMerge ''approved'')\<rparr>) []
   = (Returned, [(''#default'', mergeTemplate (sampleMerge []))])
   \<and> CreateFunctionNotifyFunction sampleMapping
     ((undecodable ''Pipeline Hook'')\<lparr>Decode_PipelineEvent := Inr (samplePipeline hashA ''canceled'')\<rparr>) []
   = (Returned, [])
   \<and> CreateFunctionNotifyFunction sampleMapping
     ((undecodable ''Job Hook'')\<lparr>Decode_JobEvent := Inr (sampleJob ''canceled'')\<rparr>) []
   = (Returned, [])"
  using unknown_keywords [where req = "(undecodable ''Issue Hook'')\<lparr>Decode_IssueEvent := Inr (sampleIssue ''assign'')\<rparr>"
      and eventType = "''Issue Hook''" and others = "[]" and issueEvent = "sampleIssue ''assign''"
      and channelMapping = sampleMapping and conn = "[]"]
    unknown_keywords [where req = "(undecodable ''Merge Request Hook'')\<lparr>Decode_MergeEvent := Inr (sampleMerge ''approved'')\<rparr>"
      and eventType = "''Merge Request Hook''" and others = "[]" and mergeEvent = "sampleMerge ''approved''"
      and channelMapping = sampleMapping and conn = "[]"]
    unknown_keywords [where req = "(undecodable ''Pipeline Hook'')\<lparr>Decode_PipelineEvent := Inr (samplePipeline hashA ''canceled'')\<rparr>"
      and others = "[]" and pipelineEvent = "samplePipeline hashA ''canceled''"
      and channelMapping = sampleMapping and conn = "[]"]
    unknown_keywords [where req = "(undecodable ''Job Hook'')\<lparr>Decode_JobEvent := Inr (sampleJob ''canceled'')\<rparr>"
      and others = "[]" and jobEvent = "sampleJob ''canceled''"
      and channelMapping = sampleMapping and conn = "[]"]
  by (simp add: undecodable_def sampleIssue_def sampleMerge_def samplePipeline_def sampleJob_def
        knownAction_def hashA_def deliver_default)

section \<open>Hash shortening\<close>

text \<open>
  A pipeline event whose commit hash has six characters, and commits whose ids are
  shorter than the variant's width: the slice expression panics.
\<close>

theorem short_hash_counterexample:
  "CreateFunctionNotifyFunction sampleMapping
     ((undecodable ''Pipeline Hook'')\<lparr>Decode_PipelineEvent := Inr (samplePipeline ''a3f5c2'' ''running'')\<rparr>) []
   = (Panicked (SliceBoundsOutOfRange 7 6), [])
   \<and> CommitContext 7 UnescapeString (sampleCommit ''a3f5c2'') = Inl (SliceBoundsOutOfRange 7 6)
   \<and> CommitContext 8 (\<lambda>message. message) (sampleCommit ''a3f5c2d'') = Inl (SliceBoundsOutOfRange 8 7)"
  by (simp add: CreateFunctionNotifyFunction_def undecodable_def index_def PipelineHook_def
        samplePipeline_def slice_to_def CommitContext_def sampleCommit_def)

text \<open>
  Claim C4, amended.  Hash shortening truncates a commit hash of at least 7 characters
  (8 in the variant of \<^verbatim>\<open>main.go\<close>) to its first 7 (8) characters, returns a hash of
  exactly that length unchanged, and shortening the result again changes nothing.  On a
  shorter hash the slice expression panics: the commit loop stops with the panic, and so
  does the handling of a pipeline event that is not pending.
\<close>

theorem hash_shortening:
  "(width \<le> length (Commit_Id commit) \<longrightarrow>
      (\<exists>context. CommitContext width unescape commit = Inr context
          \<and> CommitContext_ShortID context = take width (Commit_Id commit)
          \<and> length (CommitContext_ShortID context) = width
          \<and> slice_to (CommitContext_ShortID context) width = Inr (CommitContext_ShortID context)))
   \<and> (length (Commit_Id commit) = width \<longrightarrow>
      (\<exists>context. CommitContext width unescape commit = Inr context
          \<and> CommitContext_ShortID context = Commit_Id commit))
   \<and> (length (Commit_Id commit) < width \<longrightarrow>
      CommitContext width unescape commit
        = Inl (SliceBoundsOutOfRange width (length (Commit_Id commit))))
   \<and> (length (Commit_Id commit) < 7 \<longrightarrow>
      commitLoop channelMapping pushEvent (commit # commits) conn
        = (Some (SliceBoundsOutOfRange 7 (length (Commit_Id commit))), conn))
   \<and> (length (Commit_Id commit) < 8 \<longrightarrow>
      commitLoop_main channelMapping pushEvent (commit # commits) conn
        = (Some (SliceBoundsOutOfRange 8 (length (Commit_Id commit))), conn))
   \<and> (X_Gitlab_Event req = ''Pipeline Hook'' # others
      \<and> Decode_PipelineEvent req = Inr pipelineEvent
      \<and> Pipeline_Status (PipelineEvent_Pipeline pipelineEvent) \<noteq> ''pending''
      \<and> length (Pipeline_Commit (PipelineEvent_Pipeline pipelineEvent)) < 7
    \<longrightarrow> CreateFunctionNotifyFunction channelMapping req conn =
         (Panicked (SliceBoundsOutOfRange 7
            (length (Pipeline_Commit (PipelineEvent_Pipeline pipelineEvent)))), conn))"
proof (intro conjI impI)
  assume "width \<le> length (Commit_Id commit)"
  then show "\<exists>context. CommitContext width unescape commit = Inr context
          \<and> CommitContext_ShortID context = take width (Commit_Id commit)
          \<and> length (CommitContext_ShortID context) = width
          \<and> slice_to (CommitContext_ShortID context) width = Inr (CommitContext_ShortID context)"
    by (simp add: CommitContext_long slice_to_def)
next
  assume "length (Commit_Id commit) = width"
  then show "\<exists>context. CommitContext width unescape commit = Inr context
          \<and> CommitContext_ShortID context = Commit_Id commit"
    by (simp add: CommitContext_long)
next
  assume "length (Commit_Id commit) < width"
  then show "CommitContext width unescape commit
        = Inl (SliceBoundsOutOfRange width (length (Commit_Id commit)))"
    by (rule CommitContext_short)
next
  assume "length (Commit_Id commit) < 7"
  then show "commitLoop channelMapping pushEvent (commit # commits) conn
        = (Some (SliceBoundsOutOfRange 7 (length (Commit_Id commit))), conn)"
    by (simp add: CommitContext_short)
next
  assume "length (Commit_Id commit) < 8"
  then show "commitLoop_main channelMapping pushEvent (commit # commits) conn
        = (Some (SliceBoundsOutOfRange 8 (length (Commit_Id commit))), conn)"
    by (simp add: CommitContext_short)
next
  assume "X_Gitlab_Event req = ''Pipeline Hook'' # others
      \<and> Decode_PipelineEvent req = Inr pipelineEvent
      \<and> Pipeline_Status (PipelineEvent_Pipeline pipelineEvent) \<noteq> ''pending''
      \<and> length (Pipeline_Commit (PipelineEvent_Pipeline pipelineEvent)) < 7"
  then show "CreateFunctionNotifyFunction channelMapping req conn =
         (Panicked (SliceBoundsOutOfRange 7
            (length (Pipeline_Commit (PipelineEvent_Pipeline pipelineEvent)))), conn)"
    by (simp add: CreateFunctionNotifyFunction_def index_def PipelineHook_def slice_to_def)
qed

theorem hash_shortening_witness:
  "(\<exists>context. CommitContext 7 UnescapeString (sampleCommit hashA) = Inr context
       \<and> CommitContext_ShortID context = ''a3f5c2d'')
   \<and> (\<exists>context. CommitContext 8 (\<lambda>message. message) (sampleCommit hashA) = Inr context
       \<and> CommitContext_ShortID context = ''a3f5c2d9'')
   \<and> (\<exists>context. CommitContext 7 UnescapeString (sampleCommit ''a3f5c2d'') = Inr context
       \<and> CommitContext_ShortID context = ''a3f5c2d'')
   \<and> CommitContext 7 UnescapeString (sampleCommit ''a3f5c2'') = Inl (SliceBoundsOutOfRange 7 6)
   \<and> commitLoop sampleMapping (samplePush hashA hashB 1 []) [sampleCommit ''a3f5c2''] []
       = (Some (SliceBoundsOutOfRange 7 6), [])
   \<and> commitLoop_main sampleMapping (samplePush hashA hashB 1 []) [sampleCommit ''a3f5c2d''] []
       = (Some (SliceBoundsOutOfRange 8 7), [])
   \<and> CreateFunctionNotifyFunction sampleMapping
        ((undecodable ''Pipeline Hook'')\<lparr>Decode_PipelineEvent := Inr (samplePipeline [] ''success'')\<rparr>) []
       = (Panicked (SliceBoundsOutOfRange 7 0), [])"
proof -
  have long7: "\<exists>context. CommitContext 7 UnescapeString (sampleCommit hashA) = Inr context
       \<and> CommitContext_ShortID context = ''a3f5c2d''"
    using hash_shortening [where width = 7 and commit = "sampleCommit hashA"
        and unescape = UnescapeString, THEN conjunct1]
    by (auto simp: sampleCommit_def hashA_def)
  have long8: "\<exists>context. CommitContext 8 (\<lambda>message. message) (sampleCommit hashA) = Inr context
       \<and> CommitContext_ShortID context = ''a3f5c2d9''"
    using hash_shortening [where width = 8 and commit = "sampleCommit hashA"
        and unescape = "\<lambda>message. message", THEN conjunct1]
    by (auto simp: sampleCommit_def hashA_def)
  have exact: "\<exists>context. CommitContext 7 UnescapeString (sampleCommit ''a3f5c2d'') = Inr context
       \<and> CommitContext_ShortID context = ''a3f5c2d''"
    using hash_shortening [where width = 7 and commit = "sampleCommit ''a3f5c2d''"
        and unescape = UnescapeString, THEN conjunct2, THEN conjunct1]
    by (auto simp: sampleCommit_def)
  have short: "CommitContext 7 UnescapeString (sampleCommit ''a3f5c2'') = Inl (SliceBoundsOutOfRange 7 6)"
    using hash_shortening [where width = 7 and commit = "sampleCommit ''a3f5c2''"
        and unescape = UnescapeString, THEN conjunct2, THEN conjunct2, THEN conjunct1]
    by (simp add: sampleCommit_def)
  have loop: "commitLoop sampleMapping (samplePush hashA hashB 1 []) [sampleCommit ''a3f5c2''] []
       = (Some (SliceBoundsOutOfRange 7 6), [])"
    using hash_shortening [where commit = "sampleCommit ''a3f5c2''"
        and channelMapping = sampleMapping and pushEvent = "samplePush hashA hashB 1 []"
        and commits = "[]" and conn = "[]",
        THEN conjunct2, THEN conjunct2, THEN conjunct2, THEN conjunct1]
    by (simp add: sampleCommit_def)
  have loop_main: "commitLoop_main sampleMapping (samplePush hashA hashB 1 []) [sampleCommit ''a3f5c2d''] []
       = (Some (SliceBoundsOutOfRange 8 7), [])"
    using hash_shortening [where commit = "sampleCommit ''a3f5c2d''"
        and channelMapping = sampleMapping and pushEvent = "samplePush hashA hashB 1 []"
        and commits = "[]" and conn = "[]",
        THEN conjunct2, THEN conjunct2, THEN conjunct2, THEN conjunct2, THEN conjunct1]
    by (simp add: sampleCommit_def)
  have pipeline: "CreateFunctionNotifyFunction sampleMapping
        ((undecodable ''Pipeline Hook'')\<lparr>Decode_PipelineEvent := Inr (samplePipeline [] ''success'')\<rparr>) []
       = (Panicked (SliceBoundsOutOfRange 7 0), [])"
    using hash_shortening [where req = "(undecodable ''Pipeline Hook'')\<lparr>Decode_PipelineEvent := Inr (samplePipeline [] ''success'')\<rparr>"
        and others = "[]" and pipelineEvent = "samplePipeline [] ''success''"
        and channelMapping = sampleMapping and conn = "[]",
        THEN conjunct2, THEN conjunct2, THEN conjunct2, THEN conjunct2, THEN conjunct2]
    by (simp add: undecodable_def samplePipeline_def)
  from long7 long8 exact short loop loop_main pipeline show ?thesis by blast
qed

section \<open>Decode failures\<close>

text \<open>
  Claim C3.  What the handler does with a body that cannot be decoded depends on the
  event type: for issue, merge request, pipeline and job events (and for issue events in
  the variant of \<^verbatim>\<open>main.go\<close>) \<^verbatim>\<open>log.Fatal\<close> ends the process; only for push events does
  the handler return, with no message sent.
\<close>

theorem decode_failure_ends_process:
  "CreateFunctionNotifyFunction channelMapping (undecodable ''Issue Hook'') conn = (Exited, conn)
   \<and> CreateFunctionNotifyFunction channelMapping (undecodable ''Issue Event'') conn = (Exited, conn)
   \<and> CreateFunctionNotifyFunction channelMapping (undecodable ''Merge Request Hook'') conn = (Exited, conn)
   \<and> CreateFunctionNotifyFunction channelMapping (undecodable ''Merge Request Event'') conn = (Exited, conn)
   \<and> CreateFunctionNotifyFunction channelMapping (undecodable ''Pipeline Hook'') conn = (Exited, conn)
   \<and> CreateFunctionNotifyFunction channelMapping (undecodable ''Job Hook'') conn = (Exited, conn)
   \<and> CreateFunctionNotifyFunction_main channelMapping (undecodable ''Issue Hook'') conn = (Exited, conn)
   \<and> CreateFunctionNotifyFunction channelMapping (undecodable ''Push Hook'') conn = (Returned, conn)
   \<and> CreateFunctionNotifyFunction channelMapping (undecodable ''Push Event'') conn = (Returned, conn)
   \<and> CreateFunctionNotifyFunction_main channelMapping (undecodable ''Push Hook'') conn = (Returned, conn)"
  by (simp add: CreateFunctionNotifyFunction_def CreateFunctionNotifyFunction_main_def
        undecodable_def index_def IssueHook_def MergeRequestHook_def PipelineHook_def JobHook_def
        IssueHook_main_def PushHook_def PushHook_main_def)

end
